theory Spec2Isabelle
  imports Main "HOL-Library.Code_Target_Nat"
begin

section \<open>MovieListApp/static/app.js: values, strings and the runtime formatter\<close>

text \<open>
  Strings are HOL strings: lists of characters, one per code unit, for the code units
  below 256.

  JavaScript numbers are doubles. \<open>formatRuntime\<close> parses, divides and prints numbers, and
  on doubles these steps are exact as long as the minutes are a safe integer (at most
  \<open>2^53 - 1\<close>): then \<open>parseInt\<close> returns the integer itself, \<open>Math.floor(n / 60)\<close> is the
  integer quotient (the quotient is below \<open>2^48\<close>, so the rounded \<open>n / 60\<close> stays at least
  \<open>1/60 - 1/64\<close> below the next integer), \<open>n % 60\<close> is the remainder, and both print as
  decimal numerals. The raw runtime values of the model are the ones in that range:
  \<open>null\<close>, a missing field (\<open>undefined\<close>), a number that is a safe integer, and a string
  whose digits, read as one decimal numeral, are a safe integer. Beyond that range the
  result depends on the rounding of doubles and on how a double is printed, which this
  development does not model.
\<close>

definition is_digit :: "char \<Rightarrow> bool" where
  "is_digit c = (c \<in> set ''0123456789'')"

text \<open>
  The white space that \<open>String.prototype.trim\<close> removes, among the code units below 256:
  tab, LF, VT, FF, CR, space and the no-break space.
\<close>

definition is_space :: "char \<Rightarrow> bool" where
  "is_space c =
     (c \<in> set [CHR 0x09, CHR 0x0A, CHR 0x0B, CHR 0x0C, CHR 0x0D, CHR 0x20, CHR 0xA0])"

definition trim :: "string \<Rightarrow> string" where
  "trim s = rev (dropWhile is_space (rev (dropWhile is_space s)))"

definition digit_char :: "nat \<Rightarrow> char" where
  "digit_char d = ''0123456789'' ! d"

text \<open>The decimal numeral of a natural number, and the number a decimal numeral denotes.\<close>

fun string_of_nat :: "nat \<Rightarrow> string" where
  "string_of_nat n =
     (if n < 10 then [digit_char n]
      else string_of_nat (n div 10) @ [digit_char (n mod 10)])"

declare string_of_nat.simps [simp del]

definition digit_val :: "char \<Rightarrow> nat" where
  "digit_val c = of_char c - 48"

definition decimal_value :: "string \<Rightarrow> nat" where
  "decimal_value ds = foldl (\<lambda>n c. 10 * n + digit_val c) 0 ds"

text \<open>\<open>Number.MAX_SAFE_INTEGER\<close>, which is \<open>2^53 - 1\<close>.\<close>

definition max_safe_integer :: int where
  "max_safe_integer = 9007199254740991"

text \<open>
  The numbers of the model, \<open>Number.isSafeInteger\<close>, and the strings of the model: those
  whose digits are a safe integer.
\<close>

typedef safe_int = "{i :: int. \<bar>i\<bar> \<le> max_safe_integer}"
  morphisms int_of SafeInt
  by (rule exI[of _ 0]) (simp add: max_safe_integer_def)

typedef runtime_text =
  "{s :: string. int (decimal_value (filter is_digit s)) \<le> max_safe_integer}"
  morphisms text_of RuntimeText
  by (rule exI[of _ "[]"]) (simp add: decimal_value_def max_safe_integer_def)

setup_lifting type_definition_safe_int

setup_lifting type_definition_runtime_text

instantiation safe_int :: equal
begin

definition equal_safe_int :: "safe_int \<Rightarrow> safe_int \<Rightarrow> bool" where
  "equal_safe_int a b = (int_of a = int_of b)"

instance
  by standard (simp add: equal_safe_int_def int_of_inject)

end

instantiation runtime_text :: equal
begin

definition equal_runtime_text :: "runtime_text \<Rightarrow> runtime_text \<Rightarrow> bool" where
  "equal_runtime_text a b = (text_of a = text_of b)"

instance
  by standard (simp add: equal_runtime_text_def text_of_inject)

end

text \<open>
  A JSON number or string as a raw runtime of the model; \<open>None\<close> for a value outside
  the range of the model.
\<close>

lift_definition (code_dt) safe_int_of :: "int \<Rightarrow> safe_int option" is
  "\<lambda>i. if \<bar>i\<bar> \<le> max_safe_integer then Some i else None"
  by auto

lift_definition (code_dt) runtime_text_of :: "string \<Rightarrow> runtime_text option" is
  "\<lambda>s. if int (decimal_value (filter is_digit s)) \<le> max_safe_integer then Some s else None"
  by auto

datatype jsval = JNull | JUndefined | JNum safe_int | JStr runtime_text

text \<open>\<open>String(raw)\<close>: a safe integer prints as its decimal numeral, with its sign.\<close>

fun js_String :: "jsval \<Rightarrow> string" where
  "js_String JNull = ''null''"
| "js_String JUndefined = ''undefined''"
| "js_String (JNum i) =
     (if int_of i < 0 then CHR ''-'' # string_of_nat (nat (- int_of i))
      else string_of_nat (nat (int_of i)))"
| "js_String (JStr s) = text_of s"

text \<open>
  The number \<open>parseInt(s, 10)\<close> returns for a string without sign or leading white space,
  which is what is left once the non-digits are removed: \<open>NaN\<close> when the string does not
  start with a digit; the value of the leading digits when that is a safe integer; and
  otherwise a double from \<open>2^53\<close> on (or \<open>Infinity\<close>), of which the model says no more
  (\<open>Inexact\<close>).
\<close>

datatype number = NaN | Num nat | Inexact

definition parseInt :: "string \<Rightarrow> number" where
  "parseInt s =
     (let ds = takeWhile is_digit s
      in if ds = [] then NaN
         else if int (decimal_value ds) \<le> max_safe_integer then Num (decimal_value ds)
         else Inexact)"

definition padStart :: "nat \<Rightarrow> char \<Rightarrow> string \<Rightarrow> string" where
  "padStart w c s = replicate (w - length s) c @ s"

text \<open>
  \<open>formatRuntime\<close>. The case \<open>Inexact\<close> is not reached from a raw runtime value of the
  model (lemmas \<open>runtime_digits_safe\<close> and \<open>parseInt_runtime\<close> below); the source goes on
  there with the rounded double, and nothing is stated about its result.
\<close>

definition formatRuntime :: "jsval \<Rightarrow> string" where
  "formatRuntime raw =
     (if raw = JNull \<or> raw = JUndefined then []
      else
        let s = trim (js_String raw) in
        if s = [] then []
        else
          (case parseInt (filter is_digit s) of
             NaN \<Rightarrow> []
           | Num n \<Rightarrow>
               let h = n div 60; m = n mod 60
               in string_of_nat h @ '':'' @ padStart 2 (CHR ''0'') (string_of_nat m)
           | Inexact \<Rightarrow> []))"


section \<open>The DOM fragment built by the renderer\<close>

record movie =
  movie_id :: string
  title :: string
  runtime :: jsval
  synopsis :: "string option"

text \<open>
  A Listing is the object delivered by the server, year to genre to movies, as the
  association list of its entries in the order \<open>Object.keys\<close> enumerates them.
\<close>

type_synonym listing = "(string \<times> (string \<times> movie list) list) list"

record edit_detail =
  d_id :: string
  d_title :: string
  d_year :: string
  d_genre :: string
  d_synopsis :: string

text \<open>
  The two click listeners that \<open>renderList\<close> attaches, as the values their closures
  capture: the Remove listener holds the movie's id and title with its genre and year,
  the Edit listener the detail of the \<open>openEditModal\<close> event it dispatches.
\<close>

datatype listener =
    RemoveClick string string string string
  | EditClick edit_detail

datatype node =
    Element (tag: string) (className: string) (props: "(string \<times> string) list")
      (onclick: "listener option") (kids: "node list")
  | TextNode string

definition createElement :: "string \<Rightarrow> node" where
  "createElement t = Element t [] [] None []"

fun set_className :: "string \<Rightarrow> node \<Rightarrow> node" where
  "set_className c (Element t _ ps l ks) = Element t c ps l ks"
| "set_className c (TextNode s) = TextNode s"

fun set_prop :: "string \<Rightarrow> string \<Rightarrow> node \<Rightarrow> node" where
  "set_prop k v (Element t c ps l ks) = Element t c (ps @ [(k, v)]) l ks"
| "set_prop k v (TextNode s) = TextNode s"

text \<open>Assigning \<open>textContent\<close> replaces the children by one text node, or by none for \<open>''\<close>.\<close>

fun set_textContent :: "string \<Rightarrow> node \<Rightarrow> node" where
  "set_textContent s (Element t c ps l ks) =
     Element t c ps l (if s = [] then [] else [TextNode s])"
| "set_textContent s (TextNode x) = TextNode s"

fun addClickListener :: "listener \<Rightarrow> node \<Rightarrow> node" where
  "addClickListener f (Element t c ps _ ks) = Element t c ps (Some f) ks"
| "addClickListener f (TextNode s) = TextNode s"

fun appendChild :: "node \<Rightarrow> node \<Rightarrow> node" where
  "appendChild (Element t c ps l ks) k = Element t c ps l (ks @ [k])"
| "appendChild (TextNode s) k = TextNode s"

text \<open>Assigning \<open>innerHTML\<close>, with the markup already parsed into nodes.\<close>

fun set_innerHTML :: "node list \<Rightarrow> node \<Rightarrow> node" where
  "set_innerHTML ns (Element t c ps l _) = Element t c ps l ns"
| "set_innerHTML ns (TextNode s) = TextNode s"

definition no_movies_p :: node where
  "no_movies_p = Element ''p'' [] [] None [TextNode ''No movies in list yet.'']"

definition pick_list_p :: node where
  "pick_list_p =
     Element ''p'' [] [] None [TextNode ''Please pick a list from the dropdown menu.'']"

section \<open>renderList\<close>

definition movie_item :: "string \<Rightarrow> string \<Rightarrow> movie \<Rightarrow> node" where
  "movie_item year genre movie =
     (let li = createElement ''li'';
          titleSpan = createElement ''span'';
          formatted = formatRuntime (runtime movie);
          titleSpan = set_textContent (title movie) titleSpan;
          li = appendChild li titleSpan;
          li = (if formatted \<noteq> [] then
                  let runtimeSpan = createElement ''span'';
                      runtimeSpan = set_className ''runtime'' runtimeSpan;
                      runtimeSpan = set_textContent ('' ('' @ formatted @ '')'') runtimeSpan
                  in appendChild li runtimeSpan
                else li);
          removeBtn = createElement ''button'';
          removeBtn = set_prop ''type'' ''button'' removeBtn;
          removeBtn = set_textContent ''Remove'' removeBtn;
          removeBtn = set_prop ''style.marginLeft'' ''8px'' removeBtn;
          removeBtn =
            addClickListener (RemoveClick (movie_id movie) (title movie) year genre) removeBtn;
          li = appendChild li removeBtn;
          editBtn = createElement ''button'';
          editBtn = set_prop ''type'' ''button'' editBtn;
          editBtn = set_textContent ''Edit'' editBtn;
          editBtn = set_prop ''style.marginLeft'' ''6px'' editBtn;
          editBtn =
            addClickListener
              (EditClick \<lparr>d_id = movie_id movie, d_title = title movie, d_year = year,
                 d_genre = genre,
                 d_synopsis = (case synopsis movie of None \<Rightarrow> [] | Some s \<Rightarrow> s)\<rparr>)
              editBtn;
          li = appendChild li editBtn
      in case synopsis movie of
           None \<Rightarrow> li
         | Some syn \<Rightarrow>
             if syn \<noteq> [] \<and> trim syn \<noteq> [] then
               let p = createElement ''p'';
                   p = set_className ''synopsis'' p;
                   p = set_textContent syn p
               in appendChild li p
             else li)"

definition genre_block :: "string \<Rightarrow> string \<Rightarrow> movie list \<Rightarrow> node" where
  "genre_block year genre movies =
     (let gEl = createElement ''div'';
          gEl = set_className ''genre'' gEl;
          gh = createElement ''h4'';
          gh = set_textContent genre gh;
          gEl = appendChild gEl gh;
          ul = createElement ''ul'';
          ul = foldl (\<lambda>ul movie. appendChild ul (movie_item year genre movie)) ul movies
      in appendChild gEl ul)"

definition year_block :: "string \<Rightarrow> (string \<times> movie list) list \<Rightarrow> node" where
  "year_block year genres =
     (let yEl = createElement ''div'';
          yEl = set_className ''year'' yEl;
          h = createElement ''h3'';
          h = set_textContent year h;
          yEl = appendChild yEl h
      in foldl (\<lambda>yEl (genre, movies). appendChild yEl (genre_block year genre movies))
           yEl genres)"

definition renderList :: "node \<Rightarrow> listing \<Rightarrow> node" where
  "renderList container listing =
     (let container = set_innerHTML [] container in
      if listing = [] then set_innerHTML [no_movies_p] container
      else foldl (\<lambda>container (year, genres). appendChild container (year_block year genres))
             container listing)"

section \<open>Application state, environment and effects\<close>

text \<open>
  The page's \<open>select#list-select\<close>: the values of its options in order, and the value
  the element reports. The state holds the element as \<open>document.getElementById\<close> finds
  it; \<open>None\<close> is a page without it. The handlers that read it through the guarded
  \<open>select ? select.value : 'default'\<close> run on such a page, the ones that use the
  captured \<open>select\<close> unguarded raise a TypeError there.
\<close>

record select_el =
  options :: "string list"
  sel_value :: string

record editing_context =
  ec_id :: string
  origYear :: string
  origGenre :: string

record payload =
  p_id :: string
  new_title :: "string option"
  new_year :: "string option"
  new_genre :: "string option"
  new_synopsis :: "string option"
  p_list_name :: string

datatype request =
    ApiAdd string string
  | ApiList string
  | ApiLists
  | ApiCreateList string
  | ApiDeleteList string
  | ApiRenameList string string
  | ApiRemove string string string string
  | ApiUpdate payload
  | ApiClear string

text \<open>
  What a handler does to the world is recorded in a trace: a request sent, its response
  received, the dialogs shown, and each invocation of \<open>window.refreshList\<close>.
\<close>

datatype event =
    Request request
  | Response request
  | Alert string
  | Confirm string
  | Prompt string
  | RefreshCall

datatype exn = NetworkError | TypeError

datatype outcome = Done | Threw exn

record app =
  select :: "select_el option"
  listContainer :: node
  editingContext :: "editing_context option"
  modalTitle :: string
  modalYear :: string
  modalGenre :: string
  modalSynopsis :: "string option"
  modalSynopsisCounter :: "string option"
  modal_display :: string
  es :: "nat option"
  open_streams :: "(nat \<times> string) list"
  next_stream :: nat
  timers :: nat
  trace :: "event list"

text \<open>
  The environment of one handler run: whether a request is answered (otherwise the
  awaited promise rejects), the bodies of the two responses the client reads, the
  user's answers to \<open>confirm\<close> and \<open>prompt\<close> (\<open>None\<close> is a cancelled prompt), whether
  \<open>new EventSource\<close> succeeds, and the text an error shows in an alert.
  \<open>modalSynopsis\<close> and \<open>modalSynopsisCounter\<close> are \<open>None\<close> when the page lacks the
  element; the other modal fields and \<open>#movie-list\<close> are used unguarded by the source
  and are taken to be present. A handler runs from its start to its end: the model
  orders the effects of one handler and does not interleave two of them.
\<close>

record env =
  net_ok :: "request \<Rightarrow> bool"
  listing_of :: "string \<Rightarrow> listing"
  list_names :: "string list"
  confirm_ans :: "string \<Rightarrow> bool"
  prompt_ans :: "string \<Rightarrow> string option"
  es_ok :: bool
  error_text :: "exn \<Rightarrow> string"

definition log_event :: "event \<Rightarrow> app \<Rightarrow> app" where
  "log_event ev s = s\<lparr>trace := trace s @ [ev]\<rparr>"

text \<open>\<open>await\<close> of a request: the response arrives, or the promise rejects.\<close>

definition fetch :: "env \<Rightarrow> request \<Rightarrow> app \<Rightarrow> outcome \<times> app" where
  "fetch e r s =
     (if net_ok e r then (Done, log_event (Response r) (log_event (Request r) s))
      else (Threw NetworkError, log_event (Request r) s))"

text \<open>\<open>await m; k\<close>: the continuation runs once \<open>m\<close> has returned; an exception ends the handler.\<close>

definition and_then :: "outcome \<times> app \<Rightarrow> (app \<Rightarrow> outcome \<times> app) \<Rightarrow> outcome \<times> app" where
  "and_then r k = (case r of (Done, s) \<Rightarrow> k s | (Threw x, s) \<Rightarrow> (Threw x, s))"

text \<open>\<open>select ? select.value : 'default'\<close>\<close>

definition current_list_name :: "app \<Rightarrow> string" where
  "current_list_name s = (case select s of None \<Rightarrow> ''default'' | Some sel \<Rightarrow> sel_value sel)"

text \<open>
  Assigning \<open>select.value\<close>: the option with that value becomes the selected one; when
  there is none, no option is selected and the element reports \<open>''\<close>.
\<close>

definition set_value :: "string \<Rightarrow> select_el \<Rightarrow> select_el" where
  "set_value v sel = sel\<lparr>sel_value := (if v \<in> set (options sel) then v else [])\<rparr>"

section \<open>Refresh and the list dropdown\<close>

definition refreshList :: "env \<Rightarrow> app \<Rightarrow> outcome \<times> app" where
  "refreshList e s0 =
     (let s = log_event RefreshCall s0;
          list_name = current_list_name s
      in if list_name = [] then
           (Done, s\<lparr>listContainer := set_innerHTML [pick_list_p] (listContainer s)\<rparr>)
         else
           and_then (fetch e (ApiList list_name) s)
             (\<lambda>s. (Done, s\<lparr>listContainer :=
                              renderList (listContainer s) (listing_of e list_name)\<rparr>)))"

text \<open>
  \<open>refreshListsDropdown\<close>: the options are replaced by the placeholder (value \<open>''\<close>) and
  one option per list name other than \<open>'default'\<close>; the placeholder, the first option of
  the rebuilt element, is the selected one. \<open>list_names\<close> are the names the source reads
  off the rows of the response.
\<close>

definition refreshListsDropdown :: "env \<Rightarrow> app \<Rightarrow> outcome \<times> app" where
  "refreshListsDropdown e s =
     and_then (fetch e ApiLists s)
       (\<lambda>s. case select s of
               None \<Rightarrow> (Threw TypeError, s)
             | Some sel \<Rightarrow>
                 let names = filter (\<lambda>n. n \<noteq> ''default'') (list_names e)
                 in (Done, s\<lparr>select := Some (sel\<lparr>options := [] # names, sel_value := []\<rparr>)\<rparr>))"

section \<open>The live-update channel\<close>

text \<open>
  \<open>es\<close> is the variable of that name, holding the id of an \<open>EventSource\<close>;
  \<open>open_streams\<close> are the event sources that are open, each with its list name, and
  \<open>timers\<close> counts the interval timers that are running.
\<close>

definition close_es :: "app \<Rightarrow> app" where
  "close_es s =
     (case es s of
        None \<Rightarrow> s
      | Some i \<Rightarrow> s\<lparr>open_streams := filter (\<lambda>(j, n). j \<noteq> i) (open_streams s), es := None\<rparr>)"

definition openStreamFor :: "string \<Rightarrow> env \<Rightarrow> app \<Rightarrow> app" where
  "openStreamFor list_name e s0 =
     (let s = close_es s0 in
      if es_ok e then
        s\<lparr>es := Some (next_stream s),
          open_streams := open_streams s @ [(next_stream s, list_name)],
          next_stream := Suc (next_stream s)\<rparr>
      else
        let s = close_es s
        in s\<lparr>es := None, timers := Suc (timers s)\<rparr>)"

text \<open>A message on the stream and a tick of a polling timer both call \<open>window.refreshList()\<close>.\<close>

definition on_notification :: "env \<Rightarrow> app \<Rightarrow> app" where
  "on_notification e s = snd (refreshList e s)"

section \<open>Movie handlers: remove, edit, add, clear\<close>

definition remove_message :: "string \<Rightarrow> string \<Rightarrow> string \<Rightarrow> string" where
  "remove_message ttl genre year =
     ''Remove '' @ [CHR 0x22] @ ttl @ [CHR 0x22] @ '' from '' @ genre @ '' ('' @ year @ '')?''"

definition open_edit_modal :: "edit_detail \<Rightarrow> app \<Rightarrow> app" where
  "open_edit_modal d s =
     (let s = s\<lparr>editingContext :=
                  Some \<lparr>ec_id = d_id d, origYear = d_year d, origGenre = d_genre d\<rparr>,
                modalTitle := d_title d, modalYear := d_year d, modalGenre := d_genre d\<rparr>;
          s = (case modalSynopsis s of
                 None \<Rightarrow> s
               | Some _ \<Rightarrow>
                   let s = s\<lparr>modalSynopsis := Some (d_synopsis d)\<rparr>
                   in (case modalSynopsisCounter s of
                         None \<Rightarrow> s
                       | Some _ \<Rightarrow>
                           s\<lparr>modalSynopsisCounter :=
                               Some (''Characters: '' @ string_of_nat (length (d_synopsis d))
                                     @ ''/250'')\<rparr>))
      in s\<lparr>modal_display := ''flex''\<rparr>)"

text \<open>A click on a button of the rendered list runs the listener \<open>renderList\<close> attached.\<close>

fun click :: "listener \<Rightarrow> env \<Rightarrow> app \<Rightarrow> outcome \<times> app" where
  "click (RemoveClick mid ttl year genre) e s0 =
     (let s = log_event (Confirm (remove_message ttl genre year)) s0 in
      if \<not> confirm_ans e (remove_message ttl genre year) then (Done, s)
      else
        let list_name = current_list_name s
        in and_then (fetch e (ApiRemove mid year genre list_name) s) (refreshList e))"
| "click (EditClick d) e s = (Done, open_edit_modal d s)"

definition modal_cancel :: "app \<Rightarrow> app" where
  "modal_cancel s = s\<lparr>modal_display := ''none'', editingContext := None\<rparr>"

text \<open>\<open>x.value && x.value.trim()\<close>\<close>

definition value_and_trim :: "string \<Rightarrow> string" where
  "value_and_trim v = (if v = [] then v else trim v)"

definition build_payload :: "editing_context \<Rightarrow> app \<Rightarrow> payload" where
  "build_payload ctx s =
     (let newTitle = value_and_trim (modalTitle s);
          newYear = value_and_trim (modalYear s);
          newGenre = value_and_trim (modalGenre s);
          newSynopsisRaw = (case modalSynopsis s of None \<Rightarrow> [] | Some v \<Rightarrow> v);
          newSynopsis =
            (if newSynopsisRaw \<noteq> [] then Some (take 250 (trim newSynopsisRaw)) else None)
      in \<lparr>p_id = ec_id ctx,
          new_title = (if newTitle \<noteq> [] then Some newTitle else None),
          new_year = (if newYear \<noteq> [] then Some newYear else None),
          new_genre = (if newGenre \<noteq> [] then Some newGenre else None),
          new_synopsis = newSynopsis,
          p_list_name = current_list_name s\<rparr>)"

definition modal_save :: "env \<Rightarrow> app \<Rightarrow> outcome \<times> app" where
  "modal_save e s =
     (case editingContext s of
        None \<Rightarrow> (Done, s)
      | Some ctx \<Rightarrow>
          and_then (fetch e (ApiUpdate (build_payload ctx s)) s)
            (\<lambda>s. refreshList e (s\<lparr>modal_display := ''none'', editingContext := None\<rparr>)))"

text \<open>
  The Add button of a search result: \<open>refreshList()\<close> is called once \<open>addMovie\<close> has
  returned and is not awaited, so an exception of the refresh does not reach the handler.
\<close>

definition add_click :: "string \<Rightarrow> env \<Rightarrow> app \<Rightarrow> outcome \<times> app" where
  "add_click item_id e s =
     (let list_name = current_list_name s
      in and_then (fetch e (ApiAdd item_id list_name) s)
           (\<lambda>s. (Done, snd (refreshList e s))))"

definition clear_message :: string where
  "clear_message = ''Clear entire saved list? This cannot be undone.''"

definition clear_click :: "env \<Rightarrow> app \<Rightarrow> outcome \<times> app" where
  "clear_click e s0 =
     (let s = log_event (Confirm clear_message) s0 in
      if \<not> confirm_ans e clear_message then (Done, s)
      else
        let list_name = current_list_name s
        in and_then (fetch e (ApiClear list_name) s) (refreshList e))"

section \<open>List management: create, rename, delete, and the dropdown's change\<close>

definition new_list_body :: "string \<Rightarrow> env \<Rightarrow> app \<Rightarrow> outcome \<times> app" where
  "new_list_body name e s =
     and_then (fetch e (ApiCreateList (trim name)) s)
       (\<lambda>s. and_then (refreshListsDropdown e s)
          (\<lambda>s. case select s of
                  None \<Rightarrow> (Threw TypeError, s)
                | Some sel \<Rightarrow>
                    and_then (refreshList e (s\<lparr>select := Some (set_value (trim name) sel)\<rparr>))
                      (\<lambda>s. (Done, openStreamFor (trim name) e s))))"

definition new_click :: "env \<Rightarrow> app \<Rightarrow> outcome \<times> app" where
  "new_click e s0 =
     (let s = log_event (Prompt ''New list name:'') s0 in
      case prompt_ans e ''New list name:'' of
        None \<Rightarrow> (Done, s)
      | Some name \<Rightarrow>
          if name = [] then (Done, s)
          else
            (case new_list_body name e s of
               (Done, s) \<Rightarrow> (Done, s)
             | (Threw err, s) \<Rightarrow>
                 (Done, log_event (Alert (''Could not create list: '' @ error_text e err)) s)))"

definition rename_click :: "env \<Rightarrow> app \<Rightarrow> outcome \<times> app" where
  "rename_click e s =
     (case select s of
        None \<Rightarrow> (Threw TypeError, s)
      | Some sel \<Rightarrow>
          let oldName = sel_value sel in
          if oldName = [] \<or> oldName = ''default'' then
            (Done, log_event (Alert ''Cannot rename default list'') s)
          else
            let s = log_event (Prompt ''Rename list to:'') s in
            (case prompt_ans e ''Rename list to:'' of
               None \<Rightarrow> (Done, s)
             | Some newName \<Rightarrow>
                 if newName = [] \<or> newName = oldName then (Done, s)
                 else
                   and_then (fetch e (ApiRenameList oldName (trim newName)) s)
                     (\<lambda>s. and_then (refreshListsDropdown e s)
                        (\<lambda>s. case select s of
                                None \<Rightarrow> (Threw TypeError, s)
                              | Some sel \<Rightarrow>
                                  refreshList e
                                    (s\<lparr>select := Some (set_value (trim newName) sel)\<rparr>)))))"

definition delete_message :: "string \<Rightarrow> string" where
  "delete_message name =
     ''Delete list '' @ name @ ''? This will remove all movies in that list.''"

definition delete_click :: "env \<Rightarrow> app \<Rightarrow> outcome \<times> app" where
  "delete_click e s =
     (case select s of
        None \<Rightarrow> (Threw TypeError, s)
      | Some sel \<Rightarrow>
          let name = sel_value sel in
          if name = [] \<or> name = ''default'' then
            (Done, log_event (Alert ''Cannot delete default list'') s)
          else
            let s = log_event (Confirm (delete_message name)) s in
            if \<not> confirm_ans e (delete_message name) then (Done, s)
            else
              and_then (fetch e (ApiDeleteList name) s)
                (\<lambda>s. and_then (refreshListsDropdown e s)
                   (\<lambda>s. case select s of
                           None \<Rightarrow> (Threw TypeError, s)
                         | Some sel \<Rightarrow>
                             refreshList e (s\<lparr>select := Some (set_value [] sel)\<rparr>))))"

text \<open>The listener of the dropdown's \<open>change\<close> event.\<close>

definition select_change :: "env \<Rightarrow> app \<Rightarrow> outcome \<times> app" where
  "select_change e s =
     and_then (refreshList e s)
       (\<lambda>s. case select s of
               None \<Rightarrow> (Threw TypeError, s)
             | Some sel \<Rightarrow>
                 if sel_value sel = [] then (Done, close_es s)
                 else (Done, openStreamFor (sel_value sel) e s))"

text \<open>
  The end of the \<open>DOMContentLoaded\<close> listener, once the listeners above are registered
  (which needs the dropdown): fill the dropdown, select the placeholder, refresh.
\<close>

definition initial_load :: "env \<Rightarrow> app \<Rightarrow> outcome \<times> app" where
  "initial_load e s =
     (case select s of
        None \<Rightarrow> (Threw TypeError, s)
      | Some _ \<Rightarrow>
          and_then (refreshListsDropdown e s)
            (\<lambda>s. case select s of
                    None \<Rightarrow> (Threw TypeError, s)
                  | Some sel \<Rightarrow> refreshList e (s\<lparr>select := Some (set_value [] sel)\<rparr>)))"

section \<open>Sequences of user actions\<close>

text \<open>
  The user picks an option of the dropdown (the browser sets the value and fires
  \<open>change\<close> when it differs from the selected one), or clicks New, Rename or Delete.
\<close>

datatype action = SelectOption string | NewList | RenameList | DeleteList

fun step :: "action \<Rightarrow> env \<Rightarrow> app \<Rightarrow> app" where
  "step (SelectOption v) e s =
     (case select s of
        None \<Rightarrow> s
      | Some sel \<Rightarrow>
          if v \<in> set (options sel) \<and> v \<noteq> sel_value sel then
            snd (select_change e (s\<lparr>select := Some (sel\<lparr>sel_value := v\<rparr>)\<rparr>))
          else s)"
| "step NewList e s = snd (new_click e s)"
| "step RenameList e s = snd (rename_click e s)"
| "step DeleteList e s = snd (delete_click e s)"

fun run :: "(action \<times> env) list \<Rightarrow> app \<Rightarrow> app" where
  "run [] s = s"
| "run ((a, e) # rest) s = run rest (step a e s)"

section \<open>Observations on traces and on the rendered tree\<close>

fun requests_of :: "event list \<Rightarrow> request list" where
  "requests_of [] = []"
| "requests_of (Request r # t) = r # requests_of t"
| "requests_of (_ # t) = requests_of t"

text \<open>The events a handler added to the trace.\<close>

definition new_events :: "app \<Rightarrow> app \<Rightarrow> event list" where
  "new_events s s' = drop (length (trace s)) (trace s')"

text \<open>
  In a handler's events, Refresh is not invoked while the response to request \<open>m\<close> is
  outstanding or before \<open>m\<close> is sent, and it is invoked at some point after the response.
\<close>

definition no_refresh_before_response :: "request \<Rightarrow> event list \<Rightarrow> bool" where
  "no_refresh_before_response m t = (RefreshCall \<notin> set (takeWhile (\<lambda>ev. ev \<noteq> Response m) t))"

definition refresh_after_response :: "request \<Rightarrow> event list \<Rightarrow> bool" where
  "refresh_after_response m t = (RefreshCall \<in> set (dropWhile (\<lambda>ev. ev \<noteq> Response m) t))"

fun descendants :: "node \<Rightarrow> node list" where
  "descendants (Element t c ps l ks) = ks @ concat (map descendants ks)"
| "descendants (TextNode s) = []"

text \<open>The nodes of the hierarchy: a year block, a genre block, a movie entry.\<close>

fun is_hierarchy_node :: "node \<Rightarrow> bool" where
  "is_hierarchy_node (Element t c ps l ks) = (c = ''year'' \<or> c = ''genre'' \<or> t = ''li'')"
| "is_hierarchy_node (TextNode s) = False"

text \<open>A page whose elements are all present and empty, before the script has run.\<close>

definition blank_page :: app where
  "blank_page =
     \<lparr>select = Some \<lparr>options = [], sel_value = []\<rparr>,
      listContainer = createElement ''div'',
      editingContext = None,
      modalTitle = [], modalYear = [], modalGenre = [],
      modalSynopsis = Some [], modalSynopsisCounter = Some [],
      modal_display = ''none'',
      es = None, open_streams = [], next_stream = 0, timers = 0,
      trace = []\<rparr>"

text \<open>
  An environment in which every request is answered, the server knows the lists
  \<open>names\<close>, each with the Listing \<open>l\<close>, the user confirms every dialog and answers every
  prompt with \<open>answer\<close>, and \<open>EventSource\<close> is available or not.
\<close>

definition simple_env :: "string list \<Rightarrow> listing \<Rightarrow> string option \<Rightarrow> bool \<Rightarrow> env" where
  "simple_env names l answer sse =
     \<lparr>net_ok = (\<lambda>r. True), listing_of = (\<lambda>n. l), list_names = names,
      confirm_ans = (\<lambda>m. True), prompt_ans = (\<lambda>m. answer), es_ok = sse,
      error_text = (\<lambda>x. ''error'')\<rparr>"

text \<open>What one run of \<open>refreshList\<close> adds to the trace when the current list name is \<open>n\<close>.\<close>

definition refresh_events :: "env \<Rightarrow> string \<Rightarrow> event list" where
  "refresh_events e n =
     RefreshCall #
       (if n = [] then []
        else Request (ApiList n) # (if net_ok e (ApiList n) then [Response (ApiList n)] else []))"

text \<open>The value the dropdown reports once it was rebuilt and \<open>v\<close> was assigned to it.\<close>

definition selected_after :: "env \<Rightarrow> string \<Rightarrow> string" where
  "selected_after e v =
     (if v \<in> set ([] # filter (\<lambda>n. n \<noteq> ''default'') (list_names e)) then v else [])"

text \<open>The requests that change data on the server: all but the two reads.\<close>

fun is_mutation :: "request \<Rightarrow> bool" where
  "is_mutation (ApiList n) = False"
| "is_mutation ApiLists = False"
| "is_mutation r = True"

definition mutations :: "event list \<Rightarrow> request list" where
  "mutations t = filter is_mutation (requests_of t)"

text \<open>
  The events \<open>t\<close> of a handler whose mutation request is \<open>m\<close>: \<open>m\<close> is the one mutation
  request sent; Refresh is not invoked before the response to \<open>m\<close>; and when every
  response the handler waits for before its Refresh has arrived (\<open>answered\<close>), Refresh
  is invoked after the response to \<open>m\<close>, while otherwise it is not invoked at all.
\<close>

definition refresh_sequenced :: "request \<Rightarrow> bool \<Rightarrow> event list \<Rightarrow> bool" where
  "refresh_sequenced m answered t =
     (mutations t = [m] \<and> no_refresh_before_response m t \<and>
      (if answered then refresh_after_response m t else RefreshCall \<notin> set t))"

text \<open>
  The event source held in \<open>es\<close> is the only one that is open, and none is open when
  \<open>es\<close> is \<open>null\<close>.
\<close>

definition stream_inv :: "app \<Rightarrow> bool" where
  "stream_inv s =
     (map fst (open_streams s) = (case es s of None \<Rightarrow> [] | Some i \<Rightarrow> [i]))"

text \<open>Concrete pages: after the initial load, with a given selection, and with the modal open.\<close>

definition loaded_page :: "string list \<Rightarrow> bool \<Rightarrow> app" where
  "loaded_page names sse = snd (initial_load (simple_env names [] None sse) blank_page)"

definition selected_page :: "string list \<Rightarrow> string \<Rightarrow> app" where
  "selected_page opts v = blank_page\<lparr>select := Some \<lparr>options = opts, sel_value = v\<rparr>\<rparr>"

definition editing_page :: "string \<Rightarrow> string \<Rightarrow> string \<Rightarrow> string \<Rightarrow> app" where
  "editing_page t y g syn =
     blank_page\<lparr>select := Some \<lparr>options = [[], ''Favorites''], sel_value = ''Favorites''\<rparr>,
       editingContext := Some \<lparr>ec_id = ''tt1'', origYear = ''1995'', origGenre = ''Crime''\<rparr>,
       modalTitle := t, modalYear := y, modalGenre := g, modalSynopsis := Some syn,
       modal_display := ''flex''\<rparr>"

text \<open>
  The page with Favorites selected and an edit of the movie Heat open; an environment
  that answers every request, confirms, and answers both prompts with Best; and the
  same environment with the reload of the dropdown (\<open>GET /api/lists\<close>) failing.
\<close>

definition favorites_page :: app where
  "favorites_page = editing_page ''Heat'' [] [] []"

definition best_env :: env where
  "best_env = simple_env [''Best''] [] (Some ''Best'') True"

definition reload_fails_env :: env where
  "reload_fails_env = best_env\<lparr>net_ok := (\<lambda>r. r \<noteq> ApiLists)\<rparr>"

definition no_dropdown_page :: app where
  "no_dropdown_page =
     blank_page\<lparr>select := None,
       editingContext := Some \<lparr>ec_id = ''tt1'', origYear = ''1995'', origGenre = ''Crime''\<rparr>,
       modalTitle := ''Heat''\<rparr>"

section \<open>The formatter\<close>














section \<open>The renderer\<close>

lemma foldl_appendChild:
  "foldl (\<lambda>c x. appendChild c (f x)) (Element t c ps l ks) xs =
     Element t c ps l (ks @ map f xs)"
  by (induction xs arbitrary: ks) simp_all

lemma renderList_Element:
  "renderList (Element t c ps l ks) listing =
     Element t c ps l
       (if listing = [] then [no_movies_p]
        else map (\<lambda>(year, genres). year_block year genres) listing)"
proof -
  have "(\<lambda>container (year, genres). appendChild container (year_block year genres)) =
        (\<lambda>container x. appendChild container (case x of (year, genres) \<Rightarrow> year_block year genres))"
    by (simp add: fun_eq_iff split: prod.splits)
  then show ?thesis
    by (simp add: renderList_def foldl_appendChild)
qed

lemma renderList_TextNode: "renderList (TextNode x) listing = TextNode x"
proof -
  have h: "foldl (\<lambda>container (year, genres). appendChild container (year_block year genres))
             (TextNode x) ys = TextNode x" for ys
    by (induction ys) (simp_all split: prod.splits)
  show ?thesis by (simp add: renderList_def Let_def h)
qed

text \<open>
  Claim C4. Rendering is an idempotent full replacement: rendering a Listing into a
  container that already holds the rendering of that Listing gives the same tree again
  (same structure, same text), and whatever the container held before (\<open>prior\<close>) has no
  influence on the result.
\<close>

theorem renderList_idempotent_replacement:
  "renderList (renderList container listing) listing = renderList container listing \<and>
   renderList (set_innerHTML prior container) listing = renderList container listing"
  by (cases container) (simp_all add: renderList_Element renderList_TextNode)

text \<open>
  Claim C7. For the Listing without year keys, \<open>renderList\<close> leaves in the container
  exactly the paragraph "No movies in list yet.", and no year, genre or movie node.
\<close>

theorem renderList_empty_listing:
  "renderList (Element t c ps l ks) [] =
     Element t c ps l [Element ''p'' [] [] None [TextNode ''No movies in list yet.'']] \<and>
   filter is_hierarchy_node (descendants (renderList (Element t c ps l ks) [])) = []"
  by (simp add: renderList_Element no_movies_p_def)

lemma year_block_tag: "tag (year_block y g) = ''div''"
proof -
  have "(\<lambda>yEl (genre, movies). appendChild yEl (genre_block y genre movies)) =
        (\<lambda>yEl x. appendChild yEl (case x of (genre, movies) \<Rightarrow> genre_block y genre movies))"
    by (simp add: fun_eq_iff split: prod.splits)
  then show ?thesis
    by (simp add: year_block_def createElement_def foldl_appendChild)
qed

lemma renderList_not_placeholder:
  "renderList (Element t c ps l ks) listing \<noteq> set_innerHTML [pick_list_p] (Element t c ps l ks)"
proof (cases listing)
  case Nil
  then show ?thesis by (simp add: renderList_Element no_movies_p_def pick_list_p_def)
next
  case (Cons p rest)
  obtain y g where p: "p = (y, g)" by (cases p)
  have "tag (year_block y g) \<noteq> tag pick_list_p"
    by (simp add: year_block_tag pick_list_p_def)
  then have "year_block y g \<noteq> pick_list_p" by auto
  with Cons p show ?thesis by (simp add: renderList_Element)
qed

section \<open>What each handler adds to the trace\<close>

lemmas handler_defs = fetch_def and_then_def log_event_def current_list_name_def Let_def

lemmas run_defs = selected_page_def editing_page_def no_dropdown_page_def loaded_page_def
  simple_env_def blank_page_def initial_load_def
  refreshListsDropdown_def refreshList_def select_change_def openStreamFor_def close_es_def
  set_value_def handler_defs createElement_def pick_list_p_def no_movies_p_def
  new_events_def add_click_def modal_save_def clear_click_def new_click_def new_list_body_def
  rename_click_def delete_click_def build_payload_def value_and_trim_def
  remove_message_def delete_message_def clear_message_def trim_def is_space_def

lemma new_events_append: "trace s' = trace s @ xs \<Longrightarrow> new_events s s' = xs"
  by (simp add: new_events_def)

lemma new_events_log [simp]: "new_events s (log_event ev s) = [ev]"
  by (simp add: new_events_def log_event_def)

lemma new_events_same [simp]: "new_events s s = []"
  by (simp add: new_events_def)

lemma refreshList_trace [simp]:
  "trace (snd (refreshList e s)) = trace s @ refresh_events e (current_list_name s)"
  by (simp add: refreshList_def refresh_events_def handler_defs)

lemma refreshList_keeps:
  "select (snd (refreshList e s)) = select s"
  "es (snd (refreshList e s)) = es s"
  "open_streams (snd (refreshList e s)) = open_streams s"
  "timers (snd (refreshList e s)) = timers s"
  by (simp_all add: refreshList_def handler_defs)

lemma refreshList_outcome:
  "fst (refreshList e s) =
     (if current_list_name s = [] \<or> net_ok e (ApiList (current_list_name s)) then Done
      else Threw NetworkError)"
  by (simp add: refreshList_def handler_defs)

lemma refreshList_container:
  "listContainer (snd (refreshList e s)) =
     (if current_list_name s = [] then set_innerHTML [pick_list_p] (listContainer s)
      else if net_ok e (ApiList (current_list_name s))
        then renderList (listContainer s) (listing_of e (current_list_name s))
        else listContainer s)"
  by (simp add: refreshList_def handler_defs)

lemma close_es_trace [simp]: "trace (close_es s) = trace s"
  by (simp add: close_es_def split: option.splits)

lemma openStreamFor_trace [simp]: "trace (openStreamFor n e s) = trace s"
  by (simp add: openStreamFor_def Let_def)

lemma remove_trace:
  "trace (snd (click (RemoveClick mid ttl year genre) e s)) =
     trace s @ Confirm (remove_message ttl genre year) #
       (if \<not> confirm_ans e (remove_message ttl genre year) then []
        else Request (ApiRemove mid year genre (current_list_name s)) #
          (if net_ok e (ApiRemove mid year genre (current_list_name s))
           then Response (ApiRemove mid year genre (current_list_name s)) #
                refresh_events e (current_list_name s)
           else []))"
  by (simp add: handler_defs)

lemma add_trace:
  "trace (snd (add_click item e s)) =
     trace s @ Request (ApiAdd item (current_list_name s)) #
          (if net_ok e (ApiAdd item (current_list_name s))
           then Response (ApiAdd item (current_list_name s)) #
                refresh_events e (current_list_name s)
           else [])"
  by (simp add: add_click_def handler_defs)

lemma save_trace:
  "editingContext s = Some ctx \<Longrightarrow>
   trace (snd (modal_save e s)) =
     trace s @ Request (ApiUpdate (build_payload ctx s)) #
          (if net_ok e (ApiUpdate (build_payload ctx s))
           then Response (ApiUpdate (build_payload ctx s)) #
                refresh_events e (current_list_name s)
           else [])"
  by (simp add: modal_save_def handler_defs)

lemma clear_trace:
  "trace (snd (clear_click e s)) =
     trace s @ Confirm clear_message #
       (if \<not> confirm_ans e clear_message then []
        else Request (ApiClear (current_list_name s)) #
          (if net_ok e (ApiClear (current_list_name s))
           then Response (ApiClear (current_list_name s)) #
                refresh_events e (current_list_name s)
           else []))"
  by (simp add: clear_click_def handler_defs)

lemma dropdown_result:
  "select s = Some sel \<Longrightarrow> net_ok e ApiLists \<Longrightarrow>
   refreshListsDropdown e s =
     (Done, s\<lparr>trace := trace s @ [Request ApiLists, Response ApiLists],
              select := Some (sel\<lparr>options := [] # filter (\<lambda>n. n \<noteq> ''default'') (list_names e),
                                 sel_value := []\<rparr>)\<rparr>)"
  by (simp add: refreshListsDropdown_def handler_defs)

lemma dropdown_fail:
  "\<not> net_ok e ApiLists \<Longrightarrow>
   refreshListsDropdown e s = (Threw NetworkError, s\<lparr>trace := trace s @ [Request ApiLists]\<rparr>)"
  by (simp add: refreshListsDropdown_def handler_defs)

lemma rename_quiet:
  "select s = None \<Longrightarrow> rename_click e s = (Threw TypeError, s)"
  "select s = Some sel \<Longrightarrow> sel_value sel = [] \<or> sel_value sel = ''default'' \<Longrightarrow>
     rename_click e s = (Done, log_event (Alert ''Cannot rename default list'') s)"
  "select s = Some sel \<Longrightarrow> sel_value sel \<noteq> [] \<Longrightarrow> sel_value sel \<noteq> ''default'' \<Longrightarrow>
     prompt_ans e ''Rename list to:'' = None \<or> prompt_ans e ''Rename list to:'' = Some [] \<or>
     prompt_ans e ''Rename list to:'' = Some (sel_value sel) \<Longrightarrow>
     rename_click e s = (Done, log_event (Prompt ''Rename list to:'') s)"
  by (auto simp: rename_click_def Let_def)

lemma delete_quiet:
  "select s = None \<Longrightarrow> delete_click e s = (Threw TypeError, s)"
  "select s = Some sel \<Longrightarrow> sel_value sel = [] \<or> sel_value sel = ''default'' \<Longrightarrow>
     delete_click e s = (Done, log_event (Alert ''Cannot delete default list'') s)"
  "select s = Some sel \<Longrightarrow> sel_value sel \<noteq> [] \<Longrightarrow> sel_value sel \<noteq> ''default'' \<Longrightarrow>
     \<not> confirm_ans e (delete_message (sel_value sel)) \<Longrightarrow>
     delete_click e s = (Done, log_event (Confirm (delete_message (sel_value sel))) s)"
  by (auto simp: delete_click_def Let_def)

lemma rename_trace:
  "select s = Some sel \<Longrightarrow> sel_value sel \<noteq> [] \<Longrightarrow> sel_value sel \<noteq> ''default'' \<Longrightarrow>
   prompt_ans e ''Rename list to:'' = Some newName \<Longrightarrow> newName \<noteq> [] \<Longrightarrow>
   newName \<noteq> sel_value sel \<Longrightarrow>
   trace (snd (rename_click e s)) =
     trace s @ Prompt ''Rename list to:'' #
       Request (ApiRenameList (sel_value sel) (trim newName)) #
       (if net_ok e (ApiRenameList (sel_value sel) (trim newName))
        then Response (ApiRenameList (sel_value sel) (trim newName)) # Request ApiLists #
          (if net_ok e ApiLists
           then Response ApiLists # refresh_events e (selected_after e (trim newName))
           else [])
        else [])"
  apply (cases "net_ok e ApiLists")
   apply (simp_all add: rename_click_def dropdown_result dropdown_fail handler_defs
      set_value_def selected_after_def)
  done

lemma delete_trace:
  "select s = Some sel \<Longrightarrow> sel_value sel \<noteq> [] \<Longrightarrow> sel_value sel \<noteq> ''default'' \<Longrightarrow>
   confirm_ans e (delete_message (sel_value sel)) \<Longrightarrow>
   trace (snd (delete_click e s)) =
     trace s @ Confirm (delete_message (sel_value sel)) #
       Request (ApiDeleteList (sel_value sel)) #
       (if net_ok e (ApiDeleteList (sel_value sel))
        then Response (ApiDeleteList (sel_value sel)) # Request ApiLists #
          (if net_ok e ApiLists then Response ApiLists # refresh_events e [] else [])
        else [])"
  apply (cases "net_ok e ApiLists")
   apply (simp_all add: delete_click_def dropdown_result dropdown_fail handler_defs set_value_def)
  done

lemma new_trace:
  "prompt_ans e ''New list name:'' = Some name \<Longrightarrow> name \<noteq> [] \<Longrightarrow>
   trace (snd (new_click e s)) =
     trace s @ Prompt ''New list name:'' # Request (ApiCreateList (trim name)) #
       (if \<not> net_ok e (ApiCreateList (trim name))
        then [Alert (''Could not create list: '' @ error_text e NetworkError)]
        else Response (ApiCreateList (trim name)) # Request ApiLists #
          (if \<not> net_ok e ApiLists
           then [Alert (''Could not create list: '' @ error_text e NetworkError)]
           else Response ApiLists #
             (case select s of
                None \<Rightarrow> [Alert (''Could not create list: '' @ error_text e TypeError)]
              | Some sel \<Rightarrow>
                  refresh_events e (selected_after e (trim name)) @
                  (if selected_after e (trim name) = [] \<or>
                      net_ok e (ApiList (selected_after e (trim name)))
                   then []
                   else [Alert (''Could not create list: '' @ error_text e NetworkError)]))))"
  apply (cases "net_ok e ApiLists"; cases "select s")
     apply (simp_all add: new_click_def new_list_body_def refreshListsDropdown_def
      refreshList_def handler_defs set_value_def selected_after_def refresh_events_def)
  done

lemma new_trace_cancel:
  "prompt_ans e ''New list name:'' = None \<or> prompt_ans e ''New list name:'' = Some [] \<Longrightarrow>
   trace (snd (new_click e s)) = trace s @ [Prompt ''New list name:'']"
  by (auto simp: new_click_def handler_defs)

lemma change_trace:
  "trace (snd (select_change e s)) = trace s @ refresh_events e (current_list_name s)"
  by (simp add: select_change_def refreshList_def handler_defs refresh_events_def
      split: option.splits)

section \<open>Refresh\<close>

text \<open>
  Claim C5. Refresh reads the current list name. When it is empty, the "pick a list"
  paragraph replaces the content of the list container, and no request is sent. Otherwise
  exactly one request is sent, for the Listing of that name, and when it is answered the
  Listing is rendered into the container by \<open>renderList\<close>.
\<close>

theorem refreshList_spec:
  "(current_list_name s = [] \<longrightarrow>
      refreshList e s =
        (Done, (log_event RefreshCall s)\<lparr>listContainer :=
           set_innerHTML
             [Element ''p'' [] [] None [TextNode ''Please pick a list from the dropdown menu.'']]
             (listContainer s)\<rparr>)
      \<and> requests_of (new_events s (snd (refreshList e s))) = [])
   \<and> (current_list_name s \<noteq> [] \<longrightarrow>
      requests_of (new_events s (snd (refreshList e s))) = [ApiList (current_list_name s)]
      \<and> (net_ok e (ApiList (current_list_name s)) \<longrightarrow>
           fst (refreshList e s) = Done
           \<and> listContainer (snd (refreshList e s)) =
               renderList (listContainer s) (listing_of e (current_list_name s))))"
proof -
  have ev: "new_events s (snd (refreshList e s)) = refresh_events e (current_list_name s)"
    by (rule new_events_append) (rule refreshList_trace)
  have a: "current_list_name s = [] \<Longrightarrow>
      refreshList e s =
        (Done, (log_event RefreshCall s)\<lparr>listContainer :=
           set_innerHTML
             [Element ''p'' [] [] None [TextNode ''Please pick a list from the dropdown menu.'']]
             (listContainer s)\<rparr>)"
    by (simp add: refreshList_def log_event_def current_list_name_def pick_list_p_def Let_def)
  have b: "current_list_name s = [] \<Longrightarrow>
      requests_of (new_events s (snd (refreshList e s))) = []"
    by (simp add: ev refresh_events_def)
  have c: "current_list_name s \<noteq> [] \<Longrightarrow>
      requests_of (new_events s (snd (refreshList e s))) = [ApiList (current_list_name s)]"
    by (simp add: ev refresh_events_def)
  have d: "current_list_name s \<noteq> [] \<Longrightarrow> net_ok e (ApiList (current_list_name s)) \<Longrightarrow>
           fst (refreshList e s) = Done
           \<and> listContainer (snd (refreshList e s)) =
               renderList (listContainer s) (listing_of e (current_list_name s))"
    by (simp add: refreshList_outcome refreshList_container)
  from a b c d show ?thesis by blast
qed

text \<open>Refresh with no list selected, and with the list Favorites selected.\<close>

theorem refreshList_spec_witness:
  "current_list_name (selected_page [[], ''Favorites''] []) = []
   \<and> new_events (selected_page [[], ''Favorites''] [])
        (snd (refreshList (simple_env [''Favorites''] [] None True)
               (selected_page [[], ''Favorites''] []))) = [RefreshCall]
   \<and> current_list_name (selected_page [[], ''Favorites''] ''Favorites'') \<noteq> []
   \<and> net_ok (simple_env [''Favorites''] [] None True) (ApiList ''Favorites'')
   \<and> requests_of (new_events (selected_page [[], ''Favorites''] ''Favorites'')
        (snd (refreshList (simple_env [''Favorites''] [] None True)
               (selected_page [[], ''Favorites''] ''Favorites'')))) = [ApiList ''Favorites'']
   \<and> listContainer (snd (refreshList (simple_env [''Favorites''] [] None True)
               (selected_page [[], ''Favorites''] ''Favorites''))) =
       renderList (createElement ''div'') []"
proof -
  have a: "current_list_name (selected_page [[], ''Favorites''] []) = []"
    by (simp add: run_defs)
  have b: "current_list_name (selected_page [[], ''Favorites''] ''Favorites'') \<noteq> []"
    "net_ok (simple_env [''Favorites''] [] None True) (ApiList ''Favorites'')"
    by (simp_all add: run_defs)
  have c: "new_events (selected_page [[], ''Favorites''] [])
        (snd (refreshList (simple_env [''Favorites''] [] None True)
               (selected_page [[], ''Favorites''] []))) = [RefreshCall]"
    by (simp add: run_defs)
  from a b c
    refreshList_spec [of "selected_page [[], ''Favorites''] []"
      "simple_env [''Favorites''] [] None True"]
    refreshList_spec [of "selected_page [[], ''Favorites''] ''Favorites''"
      "simple_env [''Favorites''] [] None True"]
  show ?thesis
    by (simp add: selected_page_def blank_page_def simple_env_def current_list_name_def)
qed

section \<open>Refresh follows each mutation's response\<close>

lemmas seq_defs = refresh_sequenced_def mutations_def
  no_refresh_before_response_def refresh_after_response_def refresh_events_def

lemma remove_sequenced:
  "confirm_ans e (remove_message ttl genre year) \<Longrightarrow>
   refresh_sequenced (ApiRemove mid year genre (current_list_name s))
     (net_ok e (ApiRemove mid year genre (current_list_name s)))
     (new_events s (snd (click (RemoveClick mid ttl year genre) e s)))"
  by (simp add: new_events_append[OF remove_trace] seq_defs del: click.simps)

lemma add_sequenced:
  "refresh_sequenced (ApiAdd item (current_list_name s))
     (net_ok e (ApiAdd item (current_list_name s)))
     (new_events s (snd (add_click item e s)))"
  by (simp add: new_events_append[OF add_trace] seq_defs)

lemma save_sequenced:
  "editingContext s = Some ctx \<Longrightarrow>
   refresh_sequenced (ApiUpdate (build_payload ctx s))
     (net_ok e (ApiUpdate (build_payload ctx s)))
     (new_events s (snd (modal_save e s)))"
  by (simp add: new_events_append[OF save_trace] seq_defs)

lemma clear_sequenced:
  "confirm_ans e clear_message \<Longrightarrow>
   refresh_sequenced (ApiClear (current_list_name s))
     (net_ok e (ApiClear (current_list_name s)))
     (new_events s (snd (clear_click e s)))"
  by (simp add: new_events_append[OF clear_trace] seq_defs)

lemma new_sequenced:
  "prompt_ans e ''New list name:'' = Some name \<Longrightarrow> name \<noteq> [] \<Longrightarrow>
   refresh_sequenced (ApiCreateList (trim name))
     (net_ok e (ApiCreateList (trim name)) \<and> net_ok e ApiLists \<and> select s \<noteq> None)
     (new_events s (snd (new_click e s)))"
  by (auto simp add: new_events_append[OF new_trace] seq_defs split: option.splits)

lemma rename_sequenced:
  "select s = Some sel \<Longrightarrow> sel_value sel \<noteq> [] \<Longrightarrow> sel_value sel \<noteq> ''default'' \<Longrightarrow>
   prompt_ans e ''Rename list to:'' = Some newName \<Longrightarrow> newName \<noteq> [] \<Longrightarrow>
   newName \<noteq> sel_value sel \<Longrightarrow>
   refresh_sequenced (ApiRenameList (sel_value sel) (trim newName))
     (net_ok e (ApiRenameList (sel_value sel) (trim newName)) \<and> net_ok e ApiLists)
     (new_events s (snd (rename_click e s)))"
  by (simp add: new_events_append[OF rename_trace] seq_defs)

lemma delete_sequenced:
  "select s = Some sel \<Longrightarrow> sel_value sel \<noteq> [] \<Longrightarrow> sel_value sel \<noteq> ''default'' \<Longrightarrow>
   confirm_ans e (delete_message (sel_value sel)) \<Longrightarrow>
   refresh_sequenced (ApiDeleteList (sel_value sel))
     (net_ok e (ApiDeleteList (sel_value sel)) \<and> net_ok e ApiLists)
     (new_events s (snd (delete_click e s)))"
  by (simp add: new_events_append[OF delete_trace] seq_defs)

lemma change_sequenced:
  "RefreshCall \<in> set (new_events s (snd (select_change e s))) \<and>
   mutations (new_events s (snd (select_change e s))) = []"
  by (simp add: new_events_append[OF change_trace] seq_defs)

text \<open>
  Claim C8, as the code has it. Every mutation path sends its one mutation request and
  does not invoke Refresh before the response to it has been received. Remove, add,
  update and clear invoke Refresh once that response is there. List create, rename and
  delete reload the dropdown after the response and invoke Refresh once the reload is
  answered too (create also needs the dropdown element); when a response the handler
  waits for does not arrive, the handler ends there and Refresh is not invoked. The
  dropdown's change sends no mutation request and invokes Refresh. A path is a run of
  the handler that goes ahead: the confirmation accepted, the prompt answered with a
  name (for rename a new one, on a list that may be renamed), an edit open. The order
  is the order of the effects of one handler; the handlers of two events are not
  interleaved in this model.
\<close>

theorem refresh_after_mutation_response:
  "(confirm_ans e (remove_message ttl genre year) \<longrightarrow>
      refresh_sequenced (ApiRemove mid year genre (current_list_name s))
        (net_ok e (ApiRemove mid year genre (current_list_name s)))
        (new_events s (snd (click (RemoveClick mid ttl year genre) e s))))
   \<and> refresh_sequenced (ApiAdd item (current_list_name s))
        (net_ok e (ApiAdd item (current_list_name s)))
        (new_events s (snd (add_click item e s)))
   \<and> (editingContext s = Some ctx \<longrightarrow>
      refresh_sequenced (ApiUpdate (build_payload ctx s))
        (net_ok e (ApiUpdate (build_payload ctx s)))
        (new_events s (snd (modal_save e s))))
   \<and> (confirm_ans e clear_message \<longrightarrow>
      refresh_sequenced (ApiClear (current_list_name s))
        (net_ok e (ApiClear (current_list_name s)))
        (new_events s (snd (clear_click e s))))
   \<and> (prompt_ans e ''New list name:'' = Some name \<and> name \<noteq> [] \<longrightarrow>
      refresh_sequenced (ApiCreateList (trim name))
        (net_ok e (ApiCreateList (trim name)) \<and> net_ok e ApiLists \<and> select s \<noteq> None)
        (new_events s (snd (new_click e s))))
   \<and> (select s = Some sel \<and> sel_value sel \<noteq> [] \<and> sel_value sel \<noteq> ''default'' \<and>
       prompt_ans e ''Rename list to:'' = Some newName \<and> newName \<noteq> [] \<and>
       newName \<noteq> sel_value sel \<longrightarrow>
      refresh_sequenced (ApiRenameList (sel_value sel) (trim newName))
        (net_ok e (ApiRenameList (sel_value sel) (trim newName)) \<and> net_ok e ApiLists)
        (new_events s (snd (rename_click e s))))
   \<and> (select s = Some sel \<and> sel_value sel \<noteq> [] \<and> sel_value sel \<noteq> ''default'' \<and>
       confirm_ans e (delete_message (sel_value sel)) \<longrightarrow>
      refresh_sequenced (ApiDeleteList (sel_value sel))
        (net_ok e (ApiDeleteList (sel_value sel)) \<and> net_ok e ApiLists)
        (new_events s (snd (delete_click e s))))
   \<and> RefreshCall \<in> set (new_events s (snd (select_change e s)))
   \<and> mutations (new_events s (snd (select_change e s))) = []"
  using remove_sequenced [of e ttl genre year mid s] add_sequenced [of item s e]
    save_sequenced [of s ctx e] clear_sequenced [of e s] new_sequenced [of e name s]
    rename_sequenced [of s sel e newName] delete_sequenced [of s sel e]
    change_sequenced [of s e]
  by blast

text \<open>
  With Favorites selected and an edit open, every request answered: the events of each of
  the seven mutation paths and of the dropdown's change, and the order in each.
\<close>

theorem refresh_after_mutation_response_witness:
  "confirm_ans best_env (remove_message ''Heat'' ''Crime'' ''1995'')
   \<and> editingContext favorites_page =
        Some \<lparr>ec_id = ''tt1'', origYear = ''1995'', origGenre = ''Crime''\<rparr>
   \<and> confirm_ans best_env clear_message
   \<and> prompt_ans best_env ''New list name:'' = Some ''Best''
   \<and> prompt_ans best_env ''Rename list to:'' = Some ''Best''
   \<and> select favorites_page = Some \<lparr>options = [[], ''Favorites''], sel_value = ''Favorites''\<rparr>
   \<and> confirm_ans best_env (delete_message ''Favorites'')
   \<and> new_events favorites_page
        (snd (click (RemoveClick ''tt1'' ''Heat'' ''1995'' ''Crime'') best_env favorites_page)) =
       [Confirm (remove_message ''Heat'' ''Crime'' ''1995''),
        Request (ApiRemove ''tt1'' ''1995'' ''Crime'' ''Favorites''),
        Response (ApiRemove ''tt1'' ''1995'' ''Crime'' ''Favorites''),
        RefreshCall, Request (ApiList ''Favorites''), Response (ApiList ''Favorites'')]
   \<and> refresh_sequenced (ApiRemove ''tt1'' ''1995'' ''Crime'' ''Favorites'') True
        (new_events favorites_page
          (snd (click (RemoveClick ''tt1'' ''Heat'' ''1995'' ''Crime'') best_env favorites_page)))
   \<and> new_events favorites_page (snd (add_click ''tt2'' best_env favorites_page)) =
       [Request (ApiAdd ''tt2'' ''Favorites''), Response (ApiAdd ''tt2'' ''Favorites''),
        RefreshCall, Request (ApiList ''Favorites''), Response (ApiList ''Favorites'')]
   \<and> refresh_sequenced (ApiAdd ''tt2'' ''Favorites'') True
        (new_events favorites_page (snd (add_click ''tt2'' best_env favorites_page)))
   \<and> requests_of (new_events favorites_page (snd (modal_save best_env favorites_page))) =
       [ApiUpdate \<lparr>p_id = ''tt1'', new_title = Some ''Heat'', new_year = None,
                   new_genre = None, new_synopsis = None, p_list_name = ''Favorites''\<rparr>,
        ApiList ''Favorites'']
   \<and> refresh_sequenced
        (ApiUpdate \<lparr>p_id = ''tt1'', new_title = Some ''Heat'', new_year = None,
                    new_genre = None, new_synopsis = None, p_list_name = ''Favorites''\<rparr>) True
        (new_events favorites_page (snd (modal_save best_env favorites_page)))
   \<and> new_events favorites_page (snd (clear_click best_env favorites_page)) =
       [Confirm clear_message,
        Request (ApiClear ''Favorites''), Response (ApiClear ''Favorites''),
        RefreshCall, Request (ApiList ''Favorites''), Response (ApiList ''Favorites'')]
   \<and> refresh_sequenced (ApiClear ''Favorites'') True
        (new_events favorites_page (snd (clear_click best_env favorites_page)))
   \<and> new_events favorites_page (snd (new_click best_env favorites_page)) =
       [Prompt ''New list name:'',
        Request (ApiCreateList ''Best''), Response (ApiCreateList ''Best''),
        Request ApiLists, Response ApiLists,
        RefreshCall, Request (ApiList ''Best''), Response (ApiList ''Best'')]
   \<and> refresh_sequenced (ApiCreateList ''Best'') True
        (new_events favorites_page (snd (new_click best_env favorites_page)))
   \<and> new_events favorites_page (snd (rename_click best_env favorites_page)) =
       [Prompt ''Rename list to:'',
        Request (ApiRenameList ''Favorites'' ''Best''),
        Response (ApiRenameList ''Favorites'' ''Best''),
        Request ApiLists, Response ApiLists,
        RefreshCall, Request (ApiList ''Best''), Response (ApiList ''Best'')]
   \<and> refresh_sequenced (ApiRenameList ''Favorites'' ''Best'') True
        (new_events favorites_page (snd (rename_click best_env favorites_page)))
   \<and> new_events favorites_page (snd (delete_click best_env favorites_page)) =
       [Confirm (delete_message ''Favorites''),
        Request (ApiDeleteList ''Favorites''), Response (ApiDeleteList ''Favorites''),
        Request ApiLists, Response ApiLists, RefreshCall]
   \<and> refresh_sequenced (ApiDeleteList ''Favorites'') True
        (new_events favorites_page (snd (delete_click best_env favorites_page)))
   \<and> new_events favorites_page (snd (select_change best_env favorites_page)) =
       [RefreshCall, Request (ApiList ''Favorites''), Response (ApiList ''Favorites'')]"
proof -
  let ?ctx = "\<lparr>ec_id = ''tt1'', origYear = ''1995'', origGenre = ''Crime''\<rparr>"
  let ?sel = "\<lparr>options = [[], ''Favorites''], sel_value = ''Favorites''\<rparr>"
  let ?pay = "\<lparr>p_id = ''tt1'', new_title = Some ''Heat'', new_year = None,
                new_genre = None, new_synopsis = None, p_list_name = ''Favorites''\<rparr>"
  note defs = favorites_page_def best_env_def run_defs
  have hyps: "confirm_ans best_env (remove_message ''Heat'' ''Crime'' ''1995'')"
    "editingContext favorites_page = Some ?ctx"
    "confirm_ans best_env clear_message"
    "prompt_ans best_env ''New list name:'' = Some ''Best''"
    "prompt_ans best_env ''Rename list to:'' = Some ''Best''"
    "select favorites_page = Some ?sel"
    "confirm_ans best_env (delete_message ''Favorites'')"
    by (simp_all add: defs)
  have facts: "current_list_name favorites_page = ''Favorites''"
    "build_payload ?ctx favorites_page = ?pay"
    "trim ''Best'' = ''Best''"
    "net_ok best_env r" for r
    by (simp_all add: defs)
  have remove: "new_events favorites_page
        (snd (click (RemoveClick ''tt1'' ''Heat'' ''1995'' ''Crime'') best_env favorites_page)) =
       [Confirm (remove_message ''Heat'' ''Crime'' ''1995''),
        Request (ApiRemove ''tt1'' ''1995'' ''Crime'' ''Favorites''),
        Response (ApiRemove ''tt1'' ''1995'' ''Crime'' ''Favorites''),
        RefreshCall, Request (ApiList ''Favorites''), Response (ApiList ''Favorites'')]"
    by (simp add: defs)
  have add: "new_events favorites_page (snd (add_click ''tt2'' best_env favorites_page)) =
       [Request (ApiAdd ''tt2'' ''Favorites''), Response (ApiAdd ''tt2'' ''Favorites''),
        RefreshCall, Request (ApiList ''Favorites''), Response (ApiList ''Favorites'')]"
    by (simp add: defs)
  have save: "requests_of (new_events favorites_page (snd (modal_save best_env favorites_page))) =
       [ApiUpdate ?pay, ApiList ''Favorites'']"
    by (simp add: defs)
  have clear: "new_events favorites_page (snd (clear_click best_env favorites_page)) =
       [Confirm clear_message,
        Request (ApiClear ''Favorites''), Response (ApiClear ''Favorites''),
        RefreshCall, Request (ApiList ''Favorites''), Response (ApiList ''Favorites'')]"
    by (simp add: defs)
  have new: "new_events favorites_page (snd (new_click best_env favorites_page)) =
       [Prompt ''New list name:'',
        Request (ApiCreateList ''Best''), Response (ApiCreateList ''Best''),
        Request ApiLists, Response ApiLists,
        RefreshCall, Request (ApiList ''Best''), Response (ApiList ''Best'')]"
    by (simp add: defs)
  have rename: "new_events favorites_page (snd (rename_click best_env favorites_page)) =
       [Prompt ''Rename list to:'',
        Request (ApiRenameList ''Favorites'' ''Best''),
        Response (ApiRenameList ''Favorites'' ''Best''),
        Request ApiLists, Response ApiLists,
        RefreshCall, Request (ApiList ''Best''), Response (ApiList ''Best'')]"
    by (simp add: defs)
  have delete: "new_events favorites_page (snd (delete_click best_env favorites_page)) =
       [Confirm (delete_message ''Favorites''),
        Request (ApiDeleteList ''Favorites''), Response (ApiDeleteList ''Favorites''),
        Request ApiLists, Response ApiLists, RefreshCall]"
    by (simp add: defs)
  have change: "new_events favorites_page (snd (select_change best_env favorites_page)) =
       [RefreshCall, Request (ApiList ''Favorites''), Response (ApiList ''Favorites'')]"
    by (simp add: defs)
  have seq: "refresh_sequenced (ApiRemove ''tt1'' ''1995'' ''Crime'' ''Favorites'') True
        (new_events favorites_page
          (snd (click (RemoveClick ''tt1'' ''Heat'' ''1995'' ''Crime'') best_env favorites_page)))"
    "refresh_sequenced (ApiAdd ''tt2'' ''Favorites'') True
        (new_events favorites_page (snd (add_click ''tt2'' best_env favorites_page)))"
    "refresh_sequenced (ApiUpdate ?pay) True
        (new_events favorites_page (snd (modal_save best_env favorites_page)))"
    "refresh_sequenced (ApiClear ''Favorites'') True
        (new_events favorites_page (snd (clear_click best_env favorites_page)))"
    "refresh_sequenced (ApiCreateList ''Best'') True
        (new_events favorites_page (snd (new_click best_env favorites_page)))"
    "refresh_sequenced (ApiRenameList ''Favorites'' ''Best'') True
        (new_events favorites_page (snd (rename_click best_env favorites_page)))"
    "refresh_sequenced (ApiDeleteList ''Favorites'') True
        (new_events favorites_page (snd (delete_click best_env favorites_page)))"
    using hyps
      refresh_after_mutation_response [where e = best_env and s = favorites_page
        and ttl = "''Heat''" and genre = "''Crime''" and year = "''1995''" and mid = "''tt1''"
        and item = "''tt2''" and ctx = ?ctx and name = "''Best''" and sel = ?sel
        and newName = "''Best''"]
    by (simp_all only: facts select_el.simps option.simps list.simps char.inject simp_thms
        HOL.simp_thms not_False_eq_True)
  from hyps remove add save clear new rename delete change seq show ?thesis
    by (simp only: simp_thms)
qed

text \<open>
  The claim as stated fails where the reload of the dropdown fails: the list Favorites
  is deleted, the response to the delete request is received, the reload is not
  answered, and the handler ends without invoking Refresh.
\<close>

theorem refresh_after_mutation_response_counterexample:
  "new_events favorites_page (snd (delete_click reload_fails_env favorites_page)) =
     [Confirm (delete_message ''Favorites''),
      Request (ApiDeleteList ''Favorites''), Response (ApiDeleteList ''Favorites''),
      Request ApiLists]
   \<and> RefreshCall \<notin> set (new_events favorites_page
                          (snd (delete_click reload_fails_env favorites_page)))"
  by (simp add: reload_fails_env_def favorites_page_def best_env_def run_defs)

section \<open>The payload of an edit\<close>

lemma trim_Nil [simp]: "trim [] = []"
  by (simp add: trim_def)

lemma value_and_trim_eq: "value_and_trim v = trim v"
  by (simp add: value_and_trim_def)

text \<open>
  Claim C2, as the code has it. For every save with an Editing Context, the first
  request is the update with the payload built from the form: it holds the movie id and
  the current list name; \<open>new_title\<close>, \<open>new_year\<close> and \<open>new_genre\<close> are present exactly
  when the field is non-blank after trimming, with the trimmed value; \<open>new_synopsis\<close> is
  present exactly when the synopsis field is non-empty as typed (before trimming), and
  holds the trimmed text cut to 250 characters, which is the empty string for a field of
  white space only.
\<close>

theorem save_payload:
  assumes "editingContext s = Some ctx"
  shows "take 1 (requests_of (new_events s (snd (modal_save e s)))) =
      [ApiUpdate (build_payload ctx s)]
    \<and> p_id (build_payload ctx s) = ec_id ctx
    \<and> p_list_name (build_payload ctx s) = current_list_name s
    \<and> new_title (build_payload ctx s) =
        (if trim (modalTitle s) = [] then None else Some (trim (modalTitle s)))
    \<and> new_year (build_payload ctx s) =
        (if trim (modalYear s) = [] then None else Some (trim (modalYear s)))
    \<and> new_genre (build_payload ctx s) =
        (if trim (modalGenre s) = [] then None else Some (trim (modalGenre s)))
    \<and> new_synopsis (build_payload ctx s) =
        (case modalSynopsis s of
           None \<Rightarrow> None
         | Some v \<Rightarrow> if v = [] then None else Some (take 250 (trim v)))"
proof -
  have "take 1 (requests_of (new_events s (snd (modal_save e s)))) =
      [ApiUpdate (build_payload ctx s)]"
    by (simp add: new_events_append[OF save_trace[OF assms]])
  moreover have "p_id (build_payload ctx s) = ec_id ctx"
    "p_list_name (build_payload ctx s) = current_list_name s"
    "new_title (build_payload ctx s) =
        (if trim (modalTitle s) = [] then None else Some (trim (modalTitle s)))"
    "new_year (build_payload ctx s) =
        (if trim (modalYear s) = [] then None else Some (trim (modalYear s)))"
    "new_genre (build_payload ctx s) =
        (if trim (modalGenre s) = [] then None else Some (trim (modalGenre s)))"
    "new_synopsis (build_payload ctx s) =
        (case modalSynopsis s of
           None \<Rightarrow> None
         | Some v \<Rightarrow> if v = [] then None else Some (take 250 (trim v)))"
    by (simp_all add: build_payload_def value_and_trim_eq Let_def split: option.splits)
  ultimately show ?thesis by blast
qed

text \<open>
  A save with the title \<open>" Heat "\<close>, a blank year, a genre of two spaces and a synopsis
  of 300 characters: the title is trimmed, year and genre are left out, the synopsis is
  cut to 250 characters.
\<close>

theorem save_payload_witness:
  "editingContext (editing_page '' Heat '' [] ''  '' (replicate 300 CHR ''x'')) =
     Some \<lparr>ec_id = ''tt1'', origYear = ''1995'', origGenre = ''Crime''\<rparr>
   \<and> build_payload \<lparr>ec_id = ''tt1'', origYear = ''1995'', origGenre = ''Crime''\<rparr>
       (editing_page '' Heat '' [] ''  '' (replicate 300 CHR ''x'')) =
      \<lparr>p_id = ''tt1'', new_title = Some ''Heat'', new_year = None, new_genre = None,
        new_synopsis = Some (replicate 250 CHR ''x''), p_list_name = ''Favorites''\<rparr>"
  using save_payload [of "editing_page '' Heat '' [] ''  '' (replicate 300 CHR ''x'')"
      "\<lparr>ec_id = ''tt1'', origYear = ''1995'', origGenre = ''Crime''\<rparr>"
      "simple_env [] [] None True"]
  by (simp add: editing_page_def blank_page_def build_payload_def
      value_and_trim_def trim_def is_space_def current_list_name_def)

text \<open>
  The claim as stated fails for a synopsis field of white space only: it is empty after
  trimming, and the payload still carries \<open>new_synopsis\<close>, as the empty string.
\<close>

theorem save_payload_counterexample:
  "modalSynopsis (editing_page ''Heat'' [] [] ''  '') = Some ''  ''
   \<and> trim ''  '' = []
   \<and> requests_of (new_events (editing_page ''Heat'' [] [] ''  '')
        (snd (modal_save (simple_env [''Favorites''] [] None True)
               (editing_page ''Heat'' [] [] ''  '')))) =
      [ApiUpdate \<lparr>p_id = ''tt1'', new_title = Some ''Heat'', new_year = None, new_genre = None,
                  new_synopsis = Some [], p_list_name = ''Favorites''\<rparr>,
       ApiList ''Favorites'']"
  by (simp add: run_defs)

section \<open>The live-update channel under sequences of actions\<close>

lemma stream_inv_cong:
  "es s' = es s \<Longrightarrow> open_streams s' = open_streams s \<Longrightarrow> stream_inv s' = stream_inv s"
  by (auto simp: stream_inv_def split: option.splits)

lemma stream_inv_upd [simp]:
  "stream_inv (s\<lparr>trace := tr\<rparr>) = stream_inv s"
  "stream_inv (s\<lparr>select := sl\<rparr>) = stream_inv s"
  "stream_inv (s\<lparr>listContainer := lc\<rparr>) = stream_inv s"
  by (simp_all add: stream_inv_def)

lemma close_es_inv:
  "stream_inv s \<Longrightarrow>
   stream_inv (close_es s) \<and> open_streams (close_es s) = [] \<and> es (close_es s) = None
   \<and> timers (close_es s) = timers s"
  by (auto simp: stream_inv_def close_es_def split: option.splits prod.splits)

text \<open>
  \<open>openStreamFor\<close> closes the event source it holds before it opens the next one, so
  that one stream at most is open afterwards; where \<open>EventSource\<close> is not available it
  starts one more interval timer instead, and stops none.
\<close>

lemma openStreamFor_inv:
  assumes "stream_inv s"
  shows "stream_inv (openStreamFor n e s)"
    and "es_ok e \<Longrightarrow> map snd (open_streams (openStreamFor n e s)) = [n]"
  using close_es_inv[OF assms]
  by (auto simp: openStreamFor_def Let_def stream_inv_def close_es_def split: option.splits)

lemma openStreamFor_timers [simp]:
  "timers (openStreamFor n e s) = (if es_ok e then timers s else Suc (timers s))"
  by (simp add: openStreamFor_def close_es_def Let_def split: option.splits)

lemma rename_keeps:
  "es (snd (rename_click e s)) = es s" "open_streams (snd (rename_click e s)) = open_streams s"
  "timers (snd (rename_click e s)) = timers s"
  by (simp_all add: rename_click_def refreshListsDropdown_def refreshList_def handler_defs
      split: option.splits)

lemma delete_keeps:
  "es (snd (delete_click e s)) = es s" "open_streams (snd (delete_click e s)) = open_streams s"
  "timers (snd (delete_click e s)) = timers s"
  by (simp_all add: delete_click_def refreshListsDropdown_def refreshList_def handler_defs
      split: option.splits)

lemma change_inv:
  assumes "stream_inv s"
  shows "stream_inv (snd (select_change e s))"
    and "es_ok e \<Longrightarrow> timers (snd (select_change e s)) = timers s"
proof -
  let ?r = "snd (refreshList e s)"
  have inv: "stream_inv ?r"
    using assms by (simp add: stream_inv_cong[OF refreshList_keeps(2,3)])
  have sc: "snd (select_change e s) =
      (if fst (refreshList e s) = Done then
         (case select ?r of
            None \<Rightarrow> ?r
          | Some sel \<Rightarrow>
              if sel_value sel = [] then close_es ?r else openStreamFor (sel_value sel) e ?r)
       else ?r)"
    by (cases "refreshList e s")
      (auto simp: select_change_def and_then_def split: outcome.splits option.splits)
  show "stream_inv (snd (select_change e s))"
    using inv close_es_inv[OF inv] openStreamFor_inv(1)[OF inv]
    by (simp add: sc split: option.splits)
  show "es_ok e \<Longrightarrow> timers (snd (select_change e s)) = timers s"
    using close_es_inv[OF inv]
    by (simp add: sc refreshList_keeps split: option.splits)
qed

lemma new_inv:
  assumes "stream_inv s"
  shows "stream_inv (snd (new_click e s))"
    and "es_ok e \<Longrightarrow> timers (snd (new_click e s)) = timers s"
  using assms
  by (auto simp: new_click_def new_list_body_def refreshListsDropdown_def refreshList_def
      handler_defs openStreamFor_inv(1) split: option.splits)

lemma step_inv:
  assumes "stream_inv s"
  shows "stream_inv (step a e s)" and "es_ok e \<Longrightarrow> timers (step a e s) = timers s"
proof -
  show "stream_inv (step a e s)"
  proof (cases a)
    case (SelectOption v)
    then show ?thesis using assms by (auto simp: change_inv(1) split: option.splits)
  next
    case NewList
    then show ?thesis using assms by (simp add: new_inv(1))
  next
    case RenameList
    then show ?thesis using assms by (simp add: stream_inv_cong[OF rename_keeps(1,2)])
  next
    case DeleteList
    then show ?thesis using assms by (simp add: stream_inv_cong[OF delete_keeps(1,2)])
  qed
  show "es_ok e \<Longrightarrow> timers (step a e s) = timers s"
  proof (cases a)
    case (SelectOption v)
    assume ok: "es_ok e"
    have "stream_inv (s\<lparr>select := x\<rparr>)" for x using assms by simp
    from change_inv(2)[OF this ok] SelectOption show ?thesis
      by (auto split: option.splits)
  next
    case NewList
    assume "es_ok e"
    with NewList show ?thesis using assms by (simp add: new_inv(2))
  next
    case RenameList
    then show ?thesis by (simp add: rename_keeps)
  next
    case DeleteList
    then show ?thesis by (simp add: delete_keeps)
  qed
qed

lemma run_inv: "stream_inv s \<Longrightarrow> stream_inv (run acts s)"
  by (induction acts arbitrary: s) (auto simp: step_inv(1))

lemma run_timers:
  "stream_inv s \<Longrightarrow> list_all (\<lambda>(a, e). es_ok e) acts \<Longrightarrow> timers (run acts s) = timers s"
proof (induction acts arbitrary: s)
  case Nil
  then show ?case by simp
next
  case (Cons p acts)
  obtain a e where p: "p = (a, e)" by (cases p)
  with Cons.prems have ok: "es_ok e" and rest: "list_all (\<lambda>(a, e). es_ok e) acts" by auto
  have "timers (run acts (step a e s)) = timers (step a e s)"
    using Cons.IH[OF step_inv(1)[OF Cons.prems(1)] rest] .
  with step_inv(2)[OF Cons.prems(1) ok] p show ?case by simp
qed

text \<open>
  On the event-source path the invariant holds: after every sequence of actions one
  stream at most is open, and while \<open>EventSource\<close> is available no timer is started.
\<close>

lemma streams_at_most_one:
  "stream_inv s \<Longrightarrow> length (open_streams (run acts s)) \<le> 1"
proof -
  assume "stream_inv s"
  then have "stream_inv (run acts s)" by (rule run_inv)
  then have "length (map fst (open_streams (run acts s))) \<le> 1"
    by (simp add: stream_inv_def split: option.splits)
  then show ?thesis by simp
qed

text \<open>
  Claim C1. It asks for one live-update subscription or polling timer at most after
  every sequence of actions, a new one being established only after the prior one is
  torn down. On the polling path the code does not do that: in a browser where
  \<open>new EventSource\<close> throws, each selection of a list starts an interval timer that
  nothing ever clears. After the page has loaded with the lists a and b, selecting a
  leaves one timer running, and selecting b after it leaves two.
\<close>

theorem polling_timers_accumulate:
  "timers (run [(SelectOption ''a'', simple_env [''a'', ''b''] [] None False)]
             (loaded_page [''a'', ''b''] False)) = 1
   \<and> timers (run [(SelectOption ''a'', simple_env [''a'', ''b''] [] None False),
                  (SelectOption ''b'', simple_env [''a'', ''b''] [] None False)]
             (loaded_page [''a'', ''b''] False)) = 2
   \<and> timers (run [(SelectOption ''a'', simple_env [''a'', ''b''] [] None False),
                  (SelectOption ''b'', simple_env [''a'', ''b''] [] None False),
                  (SelectOption [], simple_env [''a'', ''b''] [] None False)]
             (loaded_page [''a'', ''b''] False)) = 2"
  by (simp add: run_defs renderList_def)

section \<open>Guards of rename and delete\<close>

text \<open>
  Claim C6. When rename or delete is invoked while the selected list is "default" or
  the selection is empty, the handler shows its warning in an alert and returns: it
  sends no request, and nothing but the trace changes.
\<close>

theorem rename_delete_guard:
  assumes "select s = Some sel" and "sel_value sel = [] \<or> sel_value sel = ''default''"
  shows "rename_click e s = (Done, log_event (Alert ''Cannot rename default list'') s)
    \<and> delete_click e s = (Done, log_event (Alert ''Cannot delete default list'') s)
    \<and> requests_of (new_events s (snd (rename_click e s))) = []
    \<and> requests_of (new_events s (snd (delete_click e s))) = []"
  by (simp add: rename_quiet(2)[OF assms] delete_quiet(2)[OF assms])

theorem rename_delete_guard_witness:
  "select (selected_page [[], ''a''] []) = Some \<lparr>options = [[], ''a''], sel_value = []\<rparr>
   \<and> new_events (selected_page [[], ''a''] [])
        (snd (rename_click (simple_env [''a''] [] (Some ''b'') True)
               (selected_page [[], ''a''] [])))
      = [Alert ''Cannot rename default list'']
   \<and> new_events (selected_page [[], ''a''] [])
        (snd (delete_click (simple_env [''a''] [] (Some ''b'') True)
               (selected_page [[], ''a''] [])))
      = [Alert ''Cannot delete default list'']"
  using rename_delete_guard [of "selected_page [[], ''a''] []"
      "\<lparr>options = [[], ''a''], sel_value = []\<rparr>" "simple_env [''a''] [] (Some ''b'') True"]
  by (simp add: selected_page_def)

text \<open>
  Claim C10. When the prompt of a rename is cancelled, or returns the empty name or the
  current name, the handler sends no request and leaves the dropdown, the selection, the
  event source and the timers as they were: the state changes in its trace only.
\<close>

theorem rename_cancel_unchanged:
  assumes "select s = Some sel"
    and "prompt_ans e ''Rename list to:'' = None \<or> prompt_ans e ''Rename list to:'' = Some [] \<or>
         prompt_ans e ''Rename list to:'' = Some (sel_value sel)"
  shows "requests_of (new_events s (snd (rename_click e s))) = []
    \<and> select (snd (rename_click e s)) = select s
    \<and> es (snd (rename_click e s)) = es s
    \<and> open_streams (snd (rename_click e s)) = open_streams s
    \<and> timers (snd (rename_click e s)) = timers s
    \<and> snd (rename_click e s) = s\<lparr>trace := trace s @ new_events s (snd (rename_click e s))\<rparr>"
proof (cases "sel_value sel = [] \<or> sel_value sel = ''default''")
  case True
  show ?thesis
    by (simp add: rename_quiet(2)[OF assms(1) True]) (simp add: log_event_def)
next
  case False
  then have g: "sel_value sel \<noteq> []" "sel_value sel \<noteq> ''default''" by auto
  show ?thesis
    by (simp add: rename_quiet(3)[OF assms(1) g assms(2)]) (simp add: log_event_def)
qed

theorem rename_cancel_unchanged_witness:
  "select (selected_page [[], ''a''] ''a'') = Some \<lparr>options = [[], ''a''], sel_value = ''a''\<rparr>
   \<and> prompt_ans (simple_env [''a''] [] (Some ''a'') True) ''Rename list to:'' = Some ''a''
   \<and> snd (rename_click (simple_env [''a''] [] (Some ''a'') True) (selected_page [[], ''a''] ''a''))
      = (selected_page [[], ''a''] ''a'')\<lparr>trace := [Prompt ''Rename list to:'']\<rparr>"
  using rename_cancel_unchanged [of "selected_page [[], ''a''] ''a''"
      "\<lparr>options = [[], ''a''], sel_value = ''a''\<rparr>" "simple_env [''a''] [] (Some ''a'') True"]
  by (simp add: selected_page_def simple_env_def blank_page_def rename_click_def log_event_def
      new_events_def Let_def)

section \<open>A page without the dropdown\<close>

lemma no_type_error:
  "fst (click (RemoveClick mid ttl year genre) e s) \<noteq> Threw TypeError"
  "fst (add_click item e s) \<noteq> Threw TypeError"
  "fst (modal_save e s) \<noteq> Threw TypeError"
  "fst (refreshList e s) \<noteq> Threw TypeError"
  by (simp_all add: add_click_def modal_save_def refreshList_def handler_defs
      split: option.splits)

text \<open>
  Claim C9. When the element \<open>list-select\<close> is absent, Refresh, Remove, Add and the
  edit Save raise no TypeError and use the list name \<open>'default'\<close>: Refresh requests the
  Listing of \<open>'default'\<close> and renders it (it does not put the "pick a list" paragraph into
  the container), and the remove, add and update requests carry \<open>'default'\<close> as their list
  name.
\<close>

theorem absent_dropdown_default:
  assumes "select s = None"
  shows "requests_of (new_events s (snd (refreshList e s))) = [ApiList ''default'']
    \<and> fst (refreshList e s) \<noteq> Threw TypeError
    \<and> listContainer (snd (refreshList e s)) =
        (if net_ok e (ApiList ''default'')
         then renderList (listContainer s) (listing_of e ''default'') else listContainer s)
    \<and> (\<forall>t c ps l ks. listContainer s = Element t c ps l ks \<longrightarrow>
          renderList (listContainer s) (listing_of e ''default'') \<noteq>
          set_innerHTML [pick_list_p] (listContainer s))
    \<and> (confirm_ans e (remove_message ttl genre year) \<longrightarrow>
          take 1 (requests_of (new_events s (snd (click (RemoveClick mid ttl year genre) e s)))) =
            [ApiRemove mid year genre ''default''])
    \<and> fst (click (RemoveClick mid ttl year genre) e s) \<noteq> Threw TypeError
    \<and> take 1 (requests_of (new_events s (snd (add_click item e s)))) = [ApiAdd item ''default'']
    \<and> fst (add_click item e s) \<noteq> Threw TypeError
    \<and> (\<forall>ctx. editingContext s = Some ctx \<longrightarrow>
          take 1 (requests_of (new_events s (snd (modal_save e s)))) =
            [ApiUpdate (build_payload ctx s)]
          \<and> p_list_name (build_payload ctx s) = ''default'')
    \<and> fst (modal_save e s) \<noteq> Threw TypeError"
proof -
  have n: "current_list_name s = ''default''"
    using assms by (simp add: current_list_name_def)
  have r1: "requests_of (new_events s (snd (refreshList e s))) = [ApiList ''default'']"
    by (simp add: new_events_append[OF refreshList_trace] n refresh_events_def)
  have r2: "listContainer (snd (refreshList e s)) =
        (if net_ok e (ApiList ''default'')
         then renderList (listContainer s) (listing_of e ''default'') else listContainer s)"
    by (simp add: refreshList_container n)
  have r3: "\<forall>t c ps l ks. listContainer s = Element t c ps l ks \<longrightarrow>
          renderList (listContainer s) (listing_of e ''default'') \<noteq>
          set_innerHTML [pick_list_p] (listContainer s)"
    using renderList_not_placeholder by metis
  have rm: "confirm_ans e (remove_message ttl genre year) \<longrightarrow>
          take 1 (requests_of (new_events s (snd (click (RemoveClick mid ttl year genre) e s)))) =
            [ApiRemove mid year genre ''default'']"
    by (simp add: new_events_append[OF remove_trace] n del: click.simps)
  have ad: "take 1 (requests_of (new_events s (snd (add_click item e s)))) =
      [ApiAdd item ''default'']"
    by (simp add: new_events_append[OF add_trace] n)
  have sv: "\<forall>ctx. editingContext s = Some ctx \<longrightarrow>
          take 1 (requests_of (new_events s (snd (modal_save e s)))) =
            [ApiUpdate (build_payload ctx s)]
          \<and> p_list_name (build_payload ctx s) = ''default''"
    using n by (auto simp: new_events_append[OF save_trace] build_payload_def Let_def)
  from r1 r2 r3 rm ad sv no_type_error show ?thesis
    by blast
qed

text \<open>
  On a page without the dropdown, with an edit of the title in progress: the requests of
  Refresh, Remove, Add and Save, and the container after Refresh.
\<close>

theorem absent_dropdown_default_witness:
  "select no_dropdown_page = None
   \<and> refreshList (simple_env [] [] None True) no_dropdown_page =
       (Done, no_dropdown_page\<lparr>
          trace := [RefreshCall, Request (ApiList ''default''), Response (ApiList ''default'')],
          listContainer :=
            Element ''div'' [] [] None
              [Element ''p'' [] [] None [TextNode ''No movies in list yet.'']]\<rparr>)
   \<and> requests_of (new_events no_dropdown_page
        (snd (click (RemoveClick ''tt1'' ''Heat'' ''1995'' ''Crime'')
               (simple_env [] [] None True) no_dropdown_page))) =
       [ApiRemove ''tt1'' ''1995'' ''Crime'' ''default'', ApiList ''default'']
   \<and> requests_of (new_events no_dropdown_page
        (snd (add_click ''tt2'' (simple_env [] [] None True) no_dropdown_page))) =
       [ApiAdd ''tt2'' ''default'', ApiList ''default'']
   \<and> requests_of (new_events no_dropdown_page
        (snd (modal_save (simple_env [] [] None True) no_dropdown_page))) =
       [ApiUpdate \<lparr>p_id = ''tt1'', new_title = Some ''Heat'', new_year = None,
                   new_genre = None, new_synopsis = None, p_list_name = ''default''\<rparr>,
        ApiList ''default'']"
proof -
  have a: "select no_dropdown_page = None"
    by (simp add: run_defs)
  have b: "refreshList (simple_env [] [] None True) no_dropdown_page =
       (Done, no_dropdown_page\<lparr>
          trace := [RefreshCall, Request (ApiList ''default''), Response (ApiList ''default'')],
          listContainer :=
            Element ''div'' [] [] None
              [Element ''p'' [] [] None [TextNode ''No movies in list yet.'']]\<rparr>)"
    by (simp add: run_defs renderList_def)
  have c: "requests_of (new_events no_dropdown_page
        (snd (click (RemoveClick ''tt1'' ''Heat'' ''1995'' ''Crime'')
               (simple_env [] [] None True) no_dropdown_page))) =
       [ApiRemove ''tt1'' ''1995'' ''Crime'' ''default'', ApiList ''default'']"
    by (simp add: run_defs)
  have d: "requests_of (new_events no_dropdown_page
        (snd (add_click ''tt2'' (simple_env [] [] None True) no_dropdown_page))) =
       [ApiAdd ''tt2'' ''default'', ApiList ''default'']"
    by (simp add: run_defs)
  have e: "requests_of (new_events no_dropdown_page
        (snd (modal_save (simple_env [] [] None True) no_dropdown_page))) =
       [ApiUpdate \<lparr>p_id = ''tt1'', new_title = Some ''Heat'', new_year = None,
                   new_genre = None, new_synopsis = None, p_list_name = ''default''\<rparr>,
        ApiList ''default'']"
    by (simp add: run_defs)
  from a b c d e
    absent_dropdown_default [of no_dropdown_page "simple_env [] [] None True"
      "''Heat''" "''Crime''" "''1995''" "''tt1''" "''tt2''"]
  show ?thesis by simp
qed

end
